theory Spec2Isabelle
  imports Main
begin

section \<open>The TIMIT dataset wrapper (code/pylearn2/datasets/timit.py)\<close>

text \<open>
  The module holds one class, \<open>TIMIT\<close>, whose constructor loads the arrays of one
  partition and turns every recording into overlapping frames.  The constructor is
  embedded as a function from its arguments and the loaded arrays to
  \<open>error + object\<close>; every \<open>raise\<close> and every failing array access of the source is
  an \<open>Inl\<close> branch.  The loaded arrays are an argument: the file loads of lines
  55-89 are taken to have succeeded.  The samples are signed integers of one of numpy's
  widths (the corpus holds PCM samples); the width is part of the loaded data, and a
  value stored into an array of that type is reduced to it.
\<close>

subsection \<open>Errors, numpy indexing and slicing\<close>

datatype error =
    ValueError string
  | IndexError
  | NameError string
  | ConfigurationError

text \<open>Sequencing of two steps: an exception of the first step propagates.\<close>

definition bind_err :: "error + 'a \<Rightarrow> ('a \<Rightarrow> error + 'b) \<Rightarrow> error + 'b" where
  "bind_err m f = (case m of Inl e \<Rightarrow> Inl e | Inr x \<Rightarrow> f x)"

text \<open>\<open>a[i]\<close> on a one-dimensional array: a negative index counts from the end, an
  index out of range raises \<open>IndexError\<close>.\<close>

definition np_index :: "'a list \<Rightarrow> int \<Rightarrow> error + 'a" where
  "np_index a i =
     (let n = int (length a); j = (if i < 0 then i + n else i)
      in if 0 \<le> j \<and> j < n then Inr (a ! nat j) else Inl IndexError)"

text \<open>A bound of the slice \<open>a[start:end]\<close> on an array of length \<open>n\<close>: negative bounds
  count from the end, and every bound is clipped to \<open>[0, n]\<close>; a slice never raises.\<close>

definition slice_bound :: "nat \<Rightarrow> int \<Rightarrow> nat" where
  "slice_bound n i =
     (if i < 0 then (if i + int n < 0 then 0 else nat (i + int n))
      else if int n < i then n else nat i)"

definition py_slice :: "'a list \<Rightarrow> int \<Rightarrow> int \<Rightarrow> 'a list" where
  "py_slice a start end' =
     (let lo = slice_bound (length a) start; hi = slice_bound (length a) end'
      in take (hi - lo) (drop lo a))"

text \<open>The assignment \<open>a[start:end] = v\<close> of a scalar.\<close>

definition slice_assign :: "'a list \<Rightarrow> int \<Rightarrow> int \<Rightarrow> 'a \<Rightarrow> 'a list" where
  "slice_assign a start end' v =
     (let lo = slice_bound (length a) start; hi = slice_bound (length a) end'
      in map (\<lambda>k. if lo \<le> k \<and> k < hi then v else a ! k) [0..<length a])"

subsection \<open>Element types\<close>

text \<open>The signed integer types of numpy and the conversion of an integer to one of them,
  as the numpy of this Python 2 module does it on assignment and on overflow: the value
  is reduced modulo \<open>2 ^ bits\<close> into \<open>[- 2 ^ (bits - 1), 2 ^ (bits - 1))\<close>.\<close>

datatype np_int = Int8 | Int16 | Int32 | Int64

fun bits :: "np_int \<Rightarrow> nat" where
  "bits Int8 = 8"
| "bits Int16 = 16"
| "bits Int32 = 32"
| "bits Int64 = 64"

definition np_wrap :: "np_int \<Rightarrow> int \<Rightarrow> int" where
  "np_wrap dtype v = (v + 2 ^ (bits dtype - 1)) mod 2 ^ bits dtype - 2 ^ (bits dtype - 1)"

subsection \<open>The loaded arrays and the object\<close>

text \<open>What \<open>serial.load\<close> returns for the files the loop reads, named after the files
  (\<open><which_set>_x_raw.npy\<close>, \<open>_redux_phn.npy\<close>, \<open>_seq_to_phn.npy\<close>, \<open>_wrd.npy\<close>,
  \<open>_seq_to_wrd.npy\<close>, \<open>_spkr.npy\<close>, \<open>spkrinfo.npy\<close>).  An annotation row is
  \<open>(start, end, unit)\<close>; a range row is \<open>(first_row, last_row)\<close>.  \<open>x_raw_dtype\<close> is the
  element type of the sample arrays.\<close>

record timit_files =
  spkrinfo :: "int list list"
  x_raw :: "int list list"
  x_raw_dtype :: np_int
  redux_phn :: "(int \<times> int \<times> int) list"
  seq_to_phn :: "(int \<times> int) list"
  wrd :: "(int \<times> int \<times> int) list"
  seq_to_wrd :: "(int \<times> int) list"
  spkr :: "int list"

text \<open>An element of \<open>self.raw_wav\<close>: the raw samples as loaded, or, once the loop has
  passed it, the two-dimensional array of its frames.\<close>

datatype wav = Raw "int list" | Frames "int list list"

text \<open>\<open>shape[0]\<close> of an element.\<close>

fun shape0 :: "wav \<Rightarrow> nat" where
  "shape0 (Raw samples) = length samples"
| "shape0 (Frames rows) = length rows"

type_synonym data_specs_t = "(int \<times> int) \<times> (string \<times> string)"

text \<open>The attributes of \<open>self\<close>.  \<open>visiting_order\<close> and \<open>data_specs\<close> are \<open>None\<close> until the
  constructor assigns them (lines 181 and 190).  \<open>raw_wav_dtype\<close> is not an attribute of
  its own: it is \<open>sequence.dtype\<close> of the arrays in \<open>self.raw_wav\<close>.\<close>

record timit =
  frame_length :: int
  overlap :: int
  frames_per_example :: int
  speaker_info_list :: "int list list"
  raw_wav :: "wav list"
  raw_wav_dtype :: np_int
  phonemes :: "(int \<times> int \<times> int) list"
  sequences_to_phonemes :: "(int \<times> int) list"
  words :: "(int \<times> int \<times> int) list"
  sequences_to_words :: "(int \<times> int) list"
  speaker_id :: "int list"
  visiting_order :: "(nat \<times> nat) list option"
  data_specs :: "data_specs_t option"

text \<open>The local accumulators of the constructor (lines 92-96); the local list
  \<open>visiting_order\<close> is \<open>visiting_order_loc\<close> here, the attribute keeps the name.\<close>

record locals =
  visiting_order_loc :: "(nat \<times> nat) list"
  segmented_sequences :: "int list list list"
  segmented_phonemes :: "int list list"
  segmented_words :: "int list list"
  segmented_speaker_info :: "int list list"

subsection \<open>Label densification (lines 98-116)\<close>

text \<open>\<open>numpy.zeros_like(sequence)\<close> is an array of zeros of the length and of the element
  type of the samples; then one slice assignment per annotation row, in the order of
  the rows.  \<open>unit + 1\<close> is computed in numpy's default integer, of 64 bits, and the
  assignment converts it to the element type of the array.\<close>

definition encode_units :: "np_int \<Rightarrow> nat \<Rightarrow> (int \<times> int \<times> int) list \<Rightarrow> int list" where
  "encode_units dtype L units_sequence =
     fold (\<lambda>(unit_start, unit_end, unit) encoded.
             slice_assign encoded unit_start unit_end (np_wrap dtype (np_wrap Int64 (unit + 1))))
          units_sequence (replicate L 0)"

subsection \<open>Boundary extraction (lines 118-129)\<close>

text \<open>The loop over \<open>range(len(encoded) - 1)\<close> writes a one where two neighbours
  differ; then \<open>end[-1] = 1\<close>, which raises \<open>IndexError\<close> on an empty array.  The
  arrays have the element type of the labels; \<open>0\<close> and \<open>1\<close> are values of every
  \<open>np_int\<close>.\<close>

definition mark_changes :: "int list \<Rightarrow> int list" where
  "mark_changes encoded =
     fold (\<lambda>j end_unit. if encoded ! j \<noteq> encoded ! (j + 1) then end_unit[j := 1] else end_unit)
          [0..<length encoded - 1] (replicate (length encoded) 0)"

definition end_markers :: "int list \<Rightarrow> error + int list" where
  "end_markers encoded =
     (let end_unit = mark_changes encoded
      in if end_unit = [] then Inl IndexError
         else Inr (end_unit[length end_unit - 1 := 1]))"

subsection \<open>Frame segmentation\<close>

text \<open>Modelled from the spec: \<open>segment_axis\<close> of \<open>research.code.scripts.segmentaxis\<close>,
  which the module imports and which is not among the sources.  Section 4.3 of the
  specification: frames of exactly \<open>frame_length\<close> samples start at offsets
  \<open>0, step, 2 step, ...\<close> with \<open>step = frame_length - overlap\<close>, and the
  segmentation stops before a frame that would run past the end (the final partial
  window is dropped); \<open>frame_length \<le> 0\<close>, \<open>overlap \<ge> frame_length\<close> and
  \<open>overlap < 0\<close> are configuration errors.\<close>

function frames_from :: "nat \<Rightarrow> nat \<Rightarrow> 'a list \<Rightarrow> 'a list list" where
  "frames_from len step a =
     (if len = 0 \<or> step = 0 \<or> length a < len then []
      else take len a # frames_from len step (drop step a))"
  by pat_completeness auto
termination
  by (relation "measure (\<lambda>(len, step, a). length a)") auto

declare frames_from.simps [simp del]

text \<open>Modelled from the spec: the entry point \<open>segment_axis(a, length, overlap)\<close> of the
  same absent module, with the configuration errors of section 4.3.\<close>

definition segment_axis :: "'a list \<Rightarrow> int \<Rightarrow> int \<Rightarrow> error + 'a list list" where
  "segment_axis a len ovl =
     (if len \<le> 0 \<or> ovl \<ge> len \<or> ovl < 0 then Inl ConfigurationError
      else Inr (frames_from (nat len) (nat (len - ovl)) a))"

subsection \<open>Frame aggregation (lines 140-172)\<close>

text \<open>\<open>scipy.stats.mode(rows, axis=1)[0]\<close> for one row: the candidate values in
  ascending order, the first one with the strictly largest count wins, so ties go to
  the smallest value.\<close>

definition mode_row :: "int list \<Rightarrow> int" where
  "mode_row row =
     fst (fold (\<lambda>score (mostfrequent, oldcounts).
                  if oldcounts < count_list row score then (score, count_list row score)
                  else (mostfrequent, oldcounts))
               (sort (remdups row)) (0, 0))"

text \<open>\<open>rows.max(axis=1)\<close> for one row; a row of a segmented array has
  \<open>frame_length \<ge> 1\<close> elements.\<close>

definition max_row :: "int list \<Rightarrow> int" where
  "max_row row = (case row of [] \<Rightarrow> 0 | x # xs \<Rightarrow> fold max xs x)"

subsection \<open>One iteration of the loop (lines 98-172)\<close>

text \<open>The per-sample arrays of one sequence, before segmentation (lines 98-134).\<close>

record annotated =
  encoded_phonemes_sequence :: "int list"
  encoded_words_sequence :: "int list"
  end_phoneme_samples :: "int list"
  end_word_samples :: "int list"
  speaker_info :: "int list"

definition annotate_sequence :: "timit \<Rightarrow> nat \<Rightarrow> int list \<Rightarrow> error + annotated" where
  "annotate_sequence self i sequence =
     bind_err (np_index (sequences_to_phonemes self) (int i))
       (\<lambda>(phonemes_list_start, phonemes_list_end).
     (let phonemes_sequence = py_slice (phonemes self) phonemes_list_start phonemes_list_end;
          enc_phonemes = encode_units (raw_wav_dtype self) (length sequence) phonemes_sequence
      in
     bind_err (np_index (sequences_to_words self) (int i))
       (\<lambda>(words_list_start, words_list_end).
     (let words_sequence = py_slice (words self) words_list_start words_list_end;
          enc_words = encode_units (raw_wav_dtype self) (length sequence) words_sequence
      in
     bind_err (end_markers enc_phonemes) (\<lambda>end_phoneme'.
     bind_err (end_markers enc_words) (\<lambda>end_word'.
     bind_err (np_index (speaker_id self) (int i)) (\<lambda>spk.
     bind_err (np_index (speaker_info_list self) spk) (\<lambda>info.
       Inr \<lparr> encoded_phonemes_sequence = enc_phonemes,
             encoded_words_sequence = enc_words,
             end_phoneme_samples = end_phoneme',
             end_word_samples = end_word',
             speaker_info = info \<rparr>))))))))"

text \<open>The locals of one iteration after segmentation and aggregation (lines 136-172).\<close>

record segmented =
  segmented_sequence :: "int list list"
  segmented_encoded_phonemes_sequence :: "int list"
  segmented_encoded_words_sequence :: "int list"
  end_phoneme :: "int list"
  end_word :: "int list"

definition segment_sequence :: "timit \<Rightarrow> int list \<Rightarrow> annotated \<Rightarrow> error + segmented" where
  "segment_sequence self sequence an =
     bind_err (segment_axis sequence (frame_length self) (overlap self))
       (\<lambda>seg.
     bind_err (segment_axis (encoded_phonemes_sequence an) (frame_length self) (overlap self))
       (\<lambda>seg_phonemes.
     bind_err (segment_axis (encoded_words_sequence an) (frame_length self) (overlap self))
       (\<lambda>seg_words.
     bind_err (segment_axis (end_phoneme_samples an) (frame_length self) (overlap self))
       (\<lambda>seg_end_phoneme.
     bind_err (segment_axis (end_word_samples an) (frame_length self) (overlap self))
       (\<lambda>seg_end_word.
       Inr \<lparr> segmented_sequence = seg,
             segmented_encoded_phonemes_sequence = map mode_row seg_phonemes,
             segmented_encoded_words_sequence = map mode_row seg_words,
             end_phoneme = map max_row seg_end_phoneme,
             end_word = map max_row seg_end_word \<rparr>)))))"

definition process_sequence :: "timit \<Rightarrow> nat \<Rightarrow> int list \<Rightarrow> error + segmented" where
  "process_sequence self i sequence =
     bind_err (annotate_sequence self i sequence) (segment_sequence self sequence)"

subsection \<open>The loop and the index of training windows (lines 97-181)\<close>

text \<open>\<open>for i, sequence in enumerate(self.raw_wav)\<close>: the recursion runs over the
  sequences still to visit.  Of the values of one iteration only the segmented
  samples are kept: appended to \<open>segmented_sequences\<close> and written over
  \<open>self.raw_wav[i]\<close>; then one reference \<open>(i, j)\<close> is appended for each \<open>j\<close> of
  \<open>xrange(0, segmented_sequence.shape[0] - self.frames_per_example)\<close>.\<close>

fun transform_loop ::
  "timit \<Rightarrow> locals \<Rightarrow> nat \<Rightarrow> int list list \<Rightarrow> error + (timit \<times> locals)" where
  "transform_loop self loc i [] = Inr (self, loc)"
| "transform_loop self loc i (sequence # rest) =
     (case process_sequence self i sequence of Inl e \<Rightarrow> Inl e
      | Inr r \<Rightarrow>
          transform_loop
            (self\<lparr>raw_wav := (raw_wav self)[i := Frames (segmented_sequence r)]\<rparr>)
            (loc\<lparr>segmented_sequences := segmented_sequences loc @ [segmented_sequence r],
                 visiting_order_loc := visiting_order_loc loc @
                   map (Pair i)
                     [0..<nat (int (length (segmented_sequence r)) - frames_per_example self)]\<rparr>)
            (Suc i) rest)"

subsection \<open>The constructor\<close>

definition check_which_set :: "string \<Rightarrow> error + unit" where
  "check_which_set which_set =
     (if which_set \<notin> set [''train'', ''valid'', ''test'']
      then Inl (ValueError (which_set @ '' is not a recognized value. '' @
                            ''Valid values are ['train', 'valid', 'test'].''))
      else Inr ())"

definition load_data :: "int \<Rightarrow> int \<Rightarrow> int \<Rightarrow> timit_files \<Rightarrow> timit" where
  "load_data frame_length' overlap' frames_per_example' files =
     \<lparr> frame_length = frame_length',
       overlap = overlap',
       frames_per_example = frames_per_example',
       speaker_info_list = spkrinfo files,
       raw_wav = map Raw (x_raw files),
       raw_wav_dtype = x_raw_dtype files,
       phonemes = redux_phn files,
       sequences_to_phonemes = seq_to_phn files,
       words = wrd files,
       sequences_to_words = seq_to_wrd files,
       speaker_id = spkr files,
       visiting_order = None,
       data_specs = None \<rparr>"

definition init_locals :: locals where
  "init_locals =
     \<lparr> visiting_order_loc = [], segmented_sequences = [], segmented_phonemes = [],
       segmented_words = [], segmented_speaker_info = [] \<rparr>"

text \<open>Lines 46-181: the check of \<open>which_set\<close>, the attributes, the loop, and the
  assignment of \<open>self.visiting_order\<close>.  The body never mentions \<open>rng\<close>.\<close>

definition TIMIT_transform ::
  "string \<Rightarrow> int \<Rightarrow> int \<Rightarrow> int \<Rightarrow> 'r \<Rightarrow> timit_files \<Rightarrow> error + (timit \<times> locals)" where
  "TIMIT_transform which_set frame_length' overlap' frames_per_example' rng files =
     bind_err (check_which_set which_set) (\<lambda>_.
     bind_err (transform_loop (load_data frame_length' overlap' frames_per_example' files)
                 init_locals 0 (x_raw files))
       (\<lambda>(self, loc).
          Inr (self\<lparr>visiting_order := Some (visiting_order_loc loc)\<rparr>, loc)))"

text \<open>The names bound in the module: its imports (lines 12-19), its dunder
  assignments and the class.  \<open>VectorSpace\<close> and \<open>CompositeSpace\<close> are not Python
  builtins either, so looking one up raises \<open>NameError\<close>.\<close>

definition module_globals :: "string list" where
  "module_globals =
     [''__authors__'', ''__copyright__'', ''__credits__'', ''__license__'',
      ''__maintainer__'', ''__email__'', ''os'', ''cPickle'', ''numpy'', ''scipy'',
      ''serial'', ''resolve_iterator_class'', ''Dataset'', ''segment_axis'', ''TIMIT'']"

definition lookup_global :: "string \<Rightarrow> error + string" where
  "lookup_global name' =
     (if name' \<in> set module_globals then Inr name' else Inl (NameError name'))"

text \<open>Lines 183-190.  A call evaluates the callee's name before its arguments.\<close>

definition make_data_specs :: "timit \<Rightarrow> error + timit" where
  "make_data_specs self =
     bind_err (lookup_global ''VectorSpace'') (\<lambda>_.
     (let X_space = frame_length self * frames_per_example self;
          X_source = ''features''
      in
     bind_err (lookup_global ''VectorSpace'') (\<lambda>_.
     (let y_space = frame_length self;
          y_source = ''targets''
      in
     bind_err (lookup_global ''CompositeSpace'') (\<lambda>_.
       Inr (self\<lparr>data_specs := Some ((X_space, y_space), (X_source, y_source))\<rparr>))))))"

definition TIMIT_init ::
  "string \<Rightarrow> int \<Rightarrow> int \<Rightarrow> int \<Rightarrow> 'r \<Rightarrow> timit_files \<Rightarrow> error + timit" where
  "TIMIT_init which_set frame_length' overlap' frames_per_example' rng files =
     bind_err (TIMIT_transform which_set frame_length' overlap' frames_per_example' rng files)
       (\<lambda>(self, loc). make_data_specs self)"

subsection \<open>Example inputs\<close>

text \<open>The end-to-end scenario: one sequence of 100 samples with the phoneme row
  \<open>(10, 50, 3)\<close> and no word row.\<close>

definition files_scenario :: timit_files where
  "files_scenario =
     \<lparr> spkrinfo = [[0]], x_raw = [replicate 100 0], x_raw_dtype = Int16, redux_phn = [(10, 50, 3)],
       seq_to_phn = [(0, 1)], wrd = [], seq_to_wrd = [(0, 0)], spkr = [0] \<rparr>"

text \<open>Three sequences of 4, 1 and 3 samples; the first carries one phoneme row.\<close>

definition files_mixed :: timit_files where
  "files_mixed =
     \<lparr> spkrinfo = [[0]], x_raw = [[1, 2, 3, 4], [7], [1, 2, 3]], x_raw_dtype = Int16, redux_phn = [(0, 2, 5)],
       seq_to_phn = [(0, 1), (1, 1), (1, 1)], wrd = [],
       seq_to_wrd = [(0, 0), (0, 0), (0, 0)], spkr = [0, 0, 0] \<rparr>"

text \<open>No sequence at all; one empty sequence; one sequence of 25 samples without
  annotation rows.\<close>

definition files_none :: timit_files where
  "files_none =
     \<lparr> spkrinfo = [], x_raw = [], x_raw_dtype = Int16, redux_phn = [], seq_to_phn = [], wrd = [],
       seq_to_wrd = [], spkr = [] \<rparr>"

definition files_empty_first :: timit_files where
  "files_empty_first =
     \<lparr> spkrinfo = [[0]], x_raw = [[]], x_raw_dtype = Int16, redux_phn = [], seq_to_phn = [(0, 0)], wrd = [],
       seq_to_wrd = [(0, 0)], spkr = [0] \<rparr>"


section \<open>Properties\<close>

subsection \<open>Sequencing\<close>


lemma bind_err_Inl [simp]: "bind_err (Inl e) f = Inl e"
  by (simp add: bind_err_def)

lemma bind_err_Inr [simp]: "bind_err (Inr x) f = f x"
  by (simp add: bind_err_def)

subsection \<open>Label densification\<close>

lemma length_slice_assign [simp]: "length (slice_assign a s e v) = length a"
  by (simp add: slice_assign_def Let_def)



lemma length_fold_slice_assign [simp]:
  "length (fold (\<lambda>(s, e, u) enc. slice_assign enc s e (g u)) anns acc) = length acc"
  by (induction anns arbitrary: acc) (auto split: prod.splits)

lemma length_encode_units [simp]: "length (encode_units dtype L anns) = L"
  by (simp add: encode_units_def)










subsection \<open>Boundary extraction\<close>

lemma length_fold_update [simp]:
  "length (fold (\<lambda>j en. if P j then en[j := v] else en) js acc) = length acc"
  by (induction js arbitrary: acc) auto

lemma nth_fold_update:
  "k < length acc \<Longrightarrow>
   fold (\<lambda>j en. if P j then en[j := v] else en) js acc ! k =
     (if k \<in> set js \<and> P k then v else acc ! k)"
proof (induction js arbitrary: acc)
  case Nil
  then show ?case by simp
next
  case (Cons a js)
  show ?case
  proof (cases "a = k")
    case True
    with Cons show ?thesis by simp
  next
    case False
    with Cons show ?thesis by simp
  qed
qed

lemma length_mark_changes [simp]: "length (mark_changes enc) = length enc"
  by (simp add: mark_changes_def)

lemma nth_mark_changes:
  "k < length enc \<Longrightarrow>
   mark_changes enc ! k = (if k < length enc - 1 \<and> enc ! k \<noteq> enc ! (k + 1) then 1 else 0)"
  unfolding mark_changes_def
  using nth_fold_update[of k "replicate (length enc) 0" "\<lambda>j. enc ! j \<noteq> enc ! (j + 1)" 1 "[0..<length enc - 1]"]
  by auto

text \<open>Claim C3.  For a label array of length \<open>L \<ge> 1\<close> boundary extraction succeeds
  with an array of length \<open>L\<close> that holds, at each \<open>j \<le> L - 2\<close>, \<open>1\<close> if the labels at
  \<open>j\<close> and \<open>j + 1\<close> differ and \<open>0\<close> otherwise, and \<open>1\<close> at \<open>L - 1\<close>.\<close>

theorem end_markers_spec:
  assumes "1 \<le> length label"
  shows "\<exists>boundary. end_markers label = Inr boundary \<and>
           length boundary = length label \<and>
           (\<forall>j < length label - 1. boundary ! j = (if label ! j \<noteq> label ! (j + 1) then 1 else 0)) \<and>
           boundary ! (length label - 1) = 1"
proof -
  let ?b = "(mark_changes label)[length label - 1 := 1]"
  from assms have ne: "mark_changes label \<noteq> []" by (metis length_mark_changes list.size(3) not_one_le_zero)
  then have "end_markers label = Inr ?b" by (simp add: end_markers_def Let_def)
  moreover have "length ?b = length label" by simp
  moreover have "\<forall>j < length label - 1. ?b ! j = (if label ! j \<noteq> label ! (j + 1) then 1 else 0)"
    by (simp add: nth_mark_changes)
  moreover have "?b ! (length label - 1) = 1" using assms by simp
  ultimately show ?thesis by blast
qed

theorem end_markers_spec_witness:
  "1 \<le> length [0, 4, 4, 0, 0 :: int] \<and> end_markers [0, 4, 4, 0, 0] = Inr [1, 0, 1, 0, 1]"
  using end_markers_spec[of "[0, 4, 4, 0, 0]"]
  by (simp add: end_markers_def mark_changes_def)


subsection \<open>Frame segmentation and aggregation\<close>


lemma frames_from_rows:
  "r \<in> set (frames_from len step a) \<Longrightarrow> length r = len \<and> set r \<subseteq> set a"
proof (induction len step a rule: frames_from.induct)
  case (1 len step a)
  show ?case
  proof (cases "len = 0 \<or> step = 0 \<or> length a < len")
    case True
    with 1(2) show ?thesis by (simp add: frames_from.simps[of len step a])
  next
    case False
    with 1(2) have "r = take len a \<or> r \<in> set (frames_from len step (drop step a))"
      by (simp add: frames_from.simps[of len step a])
    then show ?thesis
    proof
      assume "r = take len a"
      then show ?thesis using False by (auto dest: in_set_takeD)
    next
      assume "r \<in> set (frames_from len step (drop step a))"
      from 1(1)[OF False this] show ?thesis by (auto dest: in_set_dropD)
    qed
  qed
qed











lemma segment_sequence_invalid:
  "frame_length self \<le> 0 \<or> overlap self \<ge> frame_length self \<or> overlap self < 0 \<Longrightarrow>
   segment_sequence self sequence an = Inl ConfigurationError"
  by (simp add: segment_sequence_def segment_axis_def)

lemma load_data_simps [simp]:
  "frame_length (load_data fl ov fpe files) = fl"
  "overlap (load_data fl ov fpe files) = ov"
  "frames_per_example (load_data fl ov fpe files) = fpe"
  "raw_wav (load_data fl ov fpe files) = map Raw (x_raw files)"
  by (simp_all add: load_data_def)

lemma check_which_set_valid:
  "which_set \<in> set [''train'', ''valid'', ''test''] \<Longrightarrow> check_which_set which_set = Inr ()"
  by (simp add: check_which_set_def)

lemma files_mixed_annotate:
  "annotate_sequence (load_data fl ov fpe files_mixed) 0 [1, 2, 3, 4] =
     Inr \<lparr> encoded_phonemes_sequence = [6, 6, 0, 0],
           encoded_words_sequence = [0, 0, 0, 0],
           end_phoneme_samples = [0, 1, 0, 1],
           end_word_samples = [0, 0, 0, 1],
           speaker_info = [0] \<rparr>"
  by code_simp






subsection \<open>The loop\<close>

lemma annotate_sequence_raw_wav [simp]:
  "annotate_sequence (self\<lparr>raw_wav := w\<rparr>) i sequence = annotate_sequence self i sequence"
  by (simp add: annotate_sequence_def)

lemma segment_sequence_raw_wav [simp]:
  "segment_sequence (self\<lparr>raw_wav := w\<rparr>) sequence an = segment_sequence self sequence an"
  by (simp add: segment_sequence_def)

lemma process_sequence_raw_wav [simp]:
  "process_sequence (self\<lparr>raw_wav := w\<rparr>) i sequence = process_sequence self i sequence"
  by (cases "annotate_sequence self i sequence") (simp_all add: process_sequence_def)

text \<open>What one pass of the loop leaves unchanged.\<close>

lemma transform_loop_frame:
  "transform_loop self loc i seqs = Inr (self', loc') \<Longrightarrow>
   length (raw_wav self') = length (raw_wav self) \<and>
   (\<forall>k < i. raw_wav self' ! k = raw_wav self ! k) \<and>
   frames_per_example self' = frames_per_example self \<and>
   segmented_phonemes loc' = segmented_phonemes loc \<and>
   segmented_words loc' = segmented_words loc"
proof (induction seqs arbitrary: self loc i)
  case Nil
  then show ?case by simp
next
  case (Cons s rest)
  from Cons.prems obtain r where r: "process_sequence self i s = Inr r"
    by (cases "process_sequence self i s") auto
  let ?self1 = "self\<lparr>raw_wav := (raw_wav self)[i := Frames (segmented_sequence r)]\<rparr>"
  let ?loc1 = "loc\<lparr>segmented_sequences := segmented_sequences loc @ [segmented_sequence r],
                 visiting_order_loc := visiting_order_loc loc @
                   map (Pair i)
                     [0..<nat (int (length (segmented_sequence r)) - frames_per_example self)]\<rparr>"
  from Cons.prems r have "transform_loop ?self1 ?loc1 (Suc i) rest = Inr (self', loc')" by simp
  from Cons.IH[OF this] show ?case by simp
qed

lemma transform_loop_succeeds:
  "\<forall>k < length seqs. \<exists>r. process_sequence self (i + k) (seqs ! k) = Inr r \<Longrightarrow>
   \<exists>self' loc'. transform_loop self loc i seqs = Inr (self', loc')"
proof (induction seqs arbitrary: self loc i)
  case Nil
  then show ?case by simp
next
  case (Cons s rest)
  from Cons.prems have "\<exists>r. process_sequence self (i + 0) ((s # rest) ! 0) = Inr r" by blast
  then obtain r where r: "process_sequence self i s = Inr r" by auto
  let ?self1 = "self\<lparr>raw_wav := (raw_wav self)[i := Frames (segmented_sequence r)]\<rparr>"
  have "\<forall>k < length rest. \<exists>r. process_sequence ?self1 (Suc i + k) (rest ! k) = Inr r"
  proof (intro allI impI)
    fix k assume "k < length rest"
    then have "Suc k < length (s # rest)" by simp
    with Cons.prems have "\<exists>r. process_sequence self (i + Suc k) ((s # rest) ! Suc k) = Inr r"
      by blast
    then show "\<exists>r. process_sequence ?self1 (Suc i + k) (rest ! k) = Inr r" by simp
  qed
  from Cons.IH[OF this] show ?case using r by simp
qed

lemma transform_loop_raw_wav:
  "transform_loop self loc i seqs = Inr (self', loc') \<Longrightarrow>
   i + length seqs \<le> length (raw_wav self) \<Longrightarrow> k < length seqs \<Longrightarrow>
   process_sequence self (i + k) (seqs ! k) = Inr r \<Longrightarrow>
   raw_wav self' ! (i + k) = Frames (segmented_sequence r)"
proof (induction seqs arbitrary: self loc i k)
  case Nil
  then show ?case by simp
next
  case (Cons s rest)
  from Cons.prems(1) obtain r0 where r0: "process_sequence self i s = Inr r0"
    by (cases "process_sequence self i s") auto
  let ?self1 = "self\<lparr>raw_wav := (raw_wav self)[i := Frames (segmented_sequence r0)]\<rparr>"
  let ?loc1 = "loc\<lparr>segmented_sequences := segmented_sequences loc @ [segmented_sequence r0],
                 visiting_order_loc := visiting_order_loc loc @
                   map (Pair i)
                     [0..<nat (int (length (segmented_sequence r0)) - frames_per_example self)]\<rparr>"
  from Cons.prems(1) r0 have run: "transform_loop ?self1 ?loc1 (Suc i) rest = Inr (self', loc')"
    by simp
  show ?case
  proof (cases k)
    case 0
    with Cons.prems(4) r0 have "r = r0" by simp
    moreover have "raw_wav self' ! i = raw_wav ?self1 ! i"
      using transform_loop_frame[OF run] by simp
    moreover have "i < length (raw_wav self)" using Cons.prems(2) by simp
    ultimately show ?thesis using 0 by simp
  next
    case (Suc k')
    have "raw_wav self' ! (Suc i + k') = Frames (segmented_sequence r)"
    proof (rule Cons.IH[OF run])
      show "Suc i + length rest \<le> length (raw_wav ?self1)" using Cons.prems(2) by simp
      show "k' < length rest" using Cons.prems(3) Suc by simp
      show "process_sequence ?self1 (Suc i + k') (rest ! k') = Inr r"
        using Cons.prems(4) Suc by simp
    qed
    then show ?thesis using Suc by simp
  qed
qed

lemma transform_loop_visiting_order:
  "transform_loop self loc i seqs = Inr (self', loc') \<Longrightarrow>
   i + length seqs \<le> length (raw_wav self) \<Longrightarrow>
   visiting_order_loc loc' =
     visiting_order_loc loc @
     concat (map (\<lambda>k. map (Pair k)
                    [0..<nat (int (shape0 (raw_wav self' ! k)) - frames_per_example self)])
                 [i..<i + length seqs])"
proof (induction seqs arbitrary: self loc i)
  case Nil
  then show ?case by simp
next
  case (Cons s rest)
  from Cons.prems(1) obtain r where r: "process_sequence self i s = Inr r"
    by (cases "process_sequence self i s") auto
  let ?self1 = "self\<lparr>raw_wav := (raw_wav self)[i := Frames (segmented_sequence r)]\<rparr>"
  let ?loc1 = "loc\<lparr>segmented_sequences := segmented_sequences loc @ [segmented_sequence r],
                 visiting_order_loc := visiting_order_loc loc @
                   map (Pair i)
                     [0..<nat (int (length (segmented_sequence r)) - frames_per_example self)]\<rparr>"
  from Cons.prems(1) r have run: "transform_loop ?self1 ?loc1 (Suc i) rest = Inr (self', loc')"
    by simp
  have bound: "Suc i + length rest \<le> length (raw_wav ?self1)" using Cons.prems(2) by simp
  have "raw_wav self' ! i = raw_wav ?self1 ! i"
    using transform_loop_frame[OF run] by simp
  moreover have "i < length (raw_wav self)" using Cons.prems(2) by simp
  ultimately have here: "shape0 (raw_wav self' ! i) = length (segmented_sequence r)" by simp
  have "i < i + length (s # rest)" by simp
  from upt_conv_Cons[OF this]
  have "[i..<i + length (s # rest)] = i # [Suc i..<Suc i + length rest]" by simp
  then show ?case
    using Cons.IH[OF run bound] here by simp
qed

lemma TIMIT_transform_run:
  assumes ws: "which_set \<in> set [''train'', ''valid'', ''test'']"
    and ok: "\<forall>k < length (x_raw files).
               \<exists>r. process_sequence (load_data fl ov fpe files) k (x_raw files ! k) = Inr r"
  shows "\<exists>self loc.
     TIMIT_transform which_set fl ov fpe rng files = Inr (self, loc) \<and>
     length (raw_wav self) = length (x_raw files) \<and>
     (\<forall>i < length (x_raw files). \<forall>r.
        process_sequence (load_data fl ov fpe files) i (x_raw files ! i) = Inr r \<longrightarrow>
        raw_wav self ! i = Frames (segmented_sequence r)) \<and>
     visiting_order self =
       Some (concat (map (\<lambda>i. map (Pair i) [0..<nat (int (shape0 (raw_wav self ! i)) - fpe)])
                         [0..<length (x_raw files)])) \<and>
     segmented_phonemes loc = [] \<and> segmented_words loc = []"
proof -
  let ?init = "load_data fl ov fpe files"
  from ok have "\<forall>k < length (x_raw files).
      \<exists>r. process_sequence ?init (0 + k) (x_raw files ! k) = Inr r" by simp
  from transform_loop_succeeds[OF this]
  obtain self' loc' where run: "transform_loop ?init init_locals 0 (x_raw files) = Inr (self', loc')"
    by blast
  have bound: "0 + length (x_raw files) \<le> length (raw_wav ?init)" by simp
  let ?self = "self'\<lparr>visiting_order := Some (visiting_order_loc loc')\<rparr>"
  have res: "TIMIT_transform which_set fl ov fpe rng files = Inr (?self, loc')"
    using run check_which_set_valid[OF ws] by (simp add: TIMIT_transform_def)
  from transform_loop_frame[OF run]
  have len: "length (raw_wav ?self) = length (x_raw files)"
    and fpe: "frames_per_example self' = fpe"
    and accs: "segmented_phonemes loc' = []" "segmented_words loc' = []"
    by (simp_all add: init_locals_def)
  have rows: "\<forall>i < length (x_raw files). \<forall>r.
        process_sequence ?init i (x_raw files ! i) = Inr r \<longrightarrow>
        raw_wav ?self ! i = Frames (segmented_sequence r)"
    using transform_loop_raw_wav[OF run bound] by simp
  have "visiting_order_loc loc' =
      concat (map (\<lambda>i. map (Pair i) [0..<nat (int (shape0 (raw_wav self' ! i)) - fpe)])
                  [0..<length (x_raw files)])"
    using transform_loop_visiting_order[OF run bound] by (simp add: init_locals_def)
  then have vo: "visiting_order ?self =
       Some (concat (map (\<lambda>i. map (Pair i) [0..<nat (int (shape0 (raw_wav ?self ! i)) - fpe)])
                         [0..<length (x_raw files)]))" by simp
  from res len rows vo accs show ?thesis by blast
qed

lemma files_mixed_ok:
  "process_sequence (load_data 2 1 1 files_mixed) 0 [1, 2, 3, 4] =
     Inr \<lparr> segmented_sequence = [[1, 2], [2, 3], [3, 4]],
           segmented_encoded_phonemes_sequence = [6, 0, 0],
           segmented_encoded_words_sequence = [0, 0, 0],
           end_phoneme = [1, 1, 1], end_word = [0, 0, 1] \<rparr>"
  "process_sequence (load_data 2 1 1 files_mixed) 1 [7] =
     Inr \<lparr> segmented_sequence = [],
           segmented_encoded_phonemes_sequence = [],
           segmented_encoded_words_sequence = [],
           end_phoneme = [], end_word = [] \<rparr>"
  "process_sequence (load_data 2 1 1 files_mixed) 2 [1, 2, 3] =
     Inr \<lparr> segmented_sequence = [[1, 2], [2, 3]],
           segmented_encoded_phonemes_sequence = [0, 0],
           segmented_encoded_words_sequence = [0, 0],
           end_phoneme = [0, 1], end_word = [0, 1] \<rparr>"
  by code_simp+

lemma files_mixed_all_ok:
  "\<forall>k < length (x_raw files_mixed).
     \<exists>r. process_sequence (load_data 2 1 1 files_mixed) k (x_raw files_mixed ! k) = Inr r"
proof (intro allI impI)
  have x: "x_raw files_mixed = [[1, 2, 3, 4], [7], [1, 2, 3]]" by (simp add: files_mixed_def)
  fix k assume "k < length (x_raw files_mixed)"
  then have "k = 0 \<or> k = 1 \<or> k = 2" by (auto simp: x)
  then show "\<exists>r. process_sequence (load_data 2 1 1 files_mixed) k (x_raw files_mixed ! k) = Inr r"
  proof (elim disjE)
    assume "k = 0" then show ?thesis using files_mixed_ok(1) by (simp add: x)
  next
    assume "k = 1" then show ?thesis using files_mixed_ok(2) by (simp add: x)
  next
    assume "k = 2" then show ?thesis using files_mixed_ok(3) by (simp add: x)
  qed
qed

text \<open>Claim C1.  Whenever the transformation of every sequence succeeds (and
  \<open>which_set\<close> is valid), the constructor reaches line 181 with every \<open>raw_wav[i]\<close>
  replaced by its frames and with \<open>visiting_order\<close> equal to the references \<open>(i, j)\<close>,
  \<open>0 \<le> j < N_i - frames_per_example\<close>, listed sequence by sequence with ascending
  offsets, where \<open>N_i\<close> is the frame count \<open>raw_wav[i].shape[0]\<close>.  The index step adds no
  error of its own, and a sequence with \<open>N_i < frames_per_example + 1\<close> has no reference
  in the list.\<close>

theorem index_builder:
  assumes ws: "which_set \<in> set [''train'', ''valid'', ''test'']"
    and ok: "\<forall>k < length (x_raw files).
               \<exists>r. process_sequence (load_data fl ov fpe files) k (x_raw files ! k) = Inr r"
  shows "\<exists>self loc refs.
     TIMIT_transform which_set fl ov fpe rng files = Inr (self, loc) \<and>
     length (raw_wav self) = length (x_raw files) \<and>
     (\<forall>i < length (x_raw files). \<forall>r.
        process_sequence (load_data fl ov fpe files) i (x_raw files ! i) = Inr r \<longrightarrow>
        raw_wav self ! i = Frames (segmented_sequence r)) \<and>
     visiting_order self = Some refs \<and>
     refs = concat (map (\<lambda>i. map (Pair i) [0..<nat (int (shape0 (raw_wav self ! i)) - fpe)])
                        [0..<length (x_raw files)]) \<and>
     (\<forall>i j. int (shape0 (raw_wav self ! i)) < fpe + 1 \<longrightarrow> (i, j) \<notin> set refs)"
proof -
  from TIMIT_transform_run[OF ws ok, of rng]
  obtain self loc where
    res: "TIMIT_transform which_set fl ov fpe rng files = Inr (self, loc)"
    and len: "length (raw_wav self) = length (x_raw files)"
    and rows: "\<forall>i < length (x_raw files). \<forall>r.
        process_sequence (load_data fl ov fpe files) i (x_raw files ! i) = Inr r \<longrightarrow>
        raw_wav self ! i = Frames (segmented_sequence r)"
    and vo: "visiting_order self =
       Some (concat (map (\<lambda>i. map (Pair i) [0..<nat (int (shape0 (raw_wav self ! i)) - fpe)])
                         [0..<length (x_raw files)]))"
    by blast
  let ?refs = "concat (map (\<lambda>i. map (Pair i) [0..<nat (int (shape0 (raw_wav self ! i)) - fpe)])
                         [0..<length (x_raw files)])"
  have none: "\<forall>i j. int (shape0 (raw_wav self ! i)) < fpe + 1 \<longrightarrow> (i, j) \<notin> set ?refs"
    by auto
  from res len rows vo none show ?thesis by blast
qed

theorem index_builder_witness:
  "\<exists>self loc.
     TIMIT_transform ''train'' 2 1 1 (17 :: nat, 2 :: nat, 946 :: nat) files_mixed = Inr (self, loc) \<and>
          shape0 (raw_wav self ! 0) = 3 \<and> shape0 (raw_wav self ! 1) = 0 \<and>
          shape0 (raw_wav self ! 2) = 2 \<and>
          visiting_order self = Some [(0, 0), (0, 1), (2, 0)]"
proof -
  have ws: "''train'' \<in> set [''train'', ''valid'', ''test'']" by simp
  have x: "x_raw files_mixed = [[1, 2, 3, 4], [7], [1, 2, 3]]" by (simp add: files_mixed_def)
  note ok = files_mixed_all_ok
  from index_builder[OF ws ok, of "(17 :: nat, 2 :: nat, 946 :: nat)"]
  obtain self loc refs where
    res: "TIMIT_transform ''train'' 2 1 1 (17 :: nat, 2 :: nat, 946 :: nat) files_mixed = Inr (self, loc)"
    and len: "length (raw_wav self) = length (x_raw files_mixed)"
    and rows: "\<forall>i < length (x_raw files_mixed). \<forall>r.
        process_sequence (load_data 2 1 1 files_mixed) i (x_raw files_mixed ! i) = Inr r \<longrightarrow>
        raw_wav self ! i = Frames (segmented_sequence r)"
    and vo: "visiting_order self = Some refs"
    and refs: "refs = concat (map (\<lambda>i. map (Pair i) [0..<nat (int (shape0 (raw_wav self ! i)) - 1)])
                        [0..<length (x_raw files_mixed)])"
    by blast
  have r0: "raw_wav self ! 0 = Frames [[1, 2], [2, 3], [3, 4]]"
    using rows files_mixed_ok(1) by (simp add: x)
  have r1: "raw_wav self ! 1 = Frames []"
    using rows files_mixed_ok(2) by (simp add: x)
  have r2: "raw_wav self ! 2 = Frames [[1, 2], [2, 3]]"
    using rows files_mixed_ok(3) by (simp add: x)
  have shapes: "shape0 (raw_wav self ! 0) = 3" "shape0 (raw_wav self ! 1) = 0"
    "shape0 (raw_wav self ! 2) = 2"
    using r0 r1 r2 by simp_all
  have r2': "raw_wav self ! Suc (Suc 0) = Frames [[1, 2], [2, 3]]"
    using r2 by (simp add: numeral_2_eq_2)
  have "refs = [(0, 0), (0, 1), (2, 0)]"
    using refs r0 r1 r2' by (simp add: x upt_rec numeral_2_eq_2)
  with res shapes vo show ?thesis by blast
qed

text \<open>The end-to-end scenario has 9 frames, and the index holds the 8 references with
  offsets 0 to 7, not 9 references with offsets 0 to 8.\<close>

theorem scenario_references_counterexample:
  "(case TIMIT_transform ''train'' 20 10 1 (17 :: nat, 2 :: nat, 946 :: nat) files_scenario of
      Inl e \<Rightarrow> None
    | Inr (self, loc) \<Rightarrow> Some (map shape0 (raw_wav self), visiting_order self)) \<noteq>
   Some ([9], Some [(0, 0), (0, 1), (0, 2), (0, 3), (0, 4), (0, 5), (0, 6), (0, 7), (0, 8)])"
  by code_simp

text \<open>Claim C5, amended.  For the sequence of 100 samples with the phoneme row
  \<open>(10, 50, 3)\<close>, \<open>frame_length = 20\<close>, \<open>overlap = 10\<close> and \<open>frames_per_example = 1\<close>, the
  frame count is 9 and the index holds exactly the 8 references with offsets 0 to 7:
  the last frame is only ever a target.\<close>

theorem scenario_references:
  "(case TIMIT_transform ''train'' 20 10 1 (17 :: nat, 2 :: nat, 946 :: nat) files_scenario of
      Inl e \<Rightarrow> None
    | Inr (self, loc) \<Rightarrow> Some (map shape0 (raw_wav self), visiting_order self)) =
   Some ([9], Some [(0, 0), (0, 1), (0, 2), (0, 3), (0, 4), (0, 5), (0, 6), (0, 7)])"
  by code_simp

text \<open>Claim C7 at the end-to-end scenario.  The iteration computes the aggregated
  phoneme and word labels of the 9 frames, but nothing stores them: after the loop the
  accumulators \<open>segmented_phonemes\<close> and \<open>segmented_words\<close> are still empty, no
  attribute of the object holds them, and the constructor ends in \<open>NameError\<close>.\<close>

theorem aggregated_labels_dropped:
  "(case process_sequence (load_data 20 10 1 files_scenario) 0 (replicate 100 0) of
      Inl e \<Rightarrow> None
    | Inr r \<Rightarrow> Some (segmented_encoded_phonemes_sequence r, segmented_encoded_words_sequence r)) =
   Some ([0, 4, 4, 4, 0, 0, 0, 0, 0], [0, 0, 0, 0, 0, 0, 0, 0, 0]) \<and>
   (case TIMIT_transform ''train'' 20 10 1 (17 :: nat, 2 :: nat, 946 :: nat) files_scenario of
      Inl e \<Rightarrow> None
    | Inr (self, loc) \<Rightarrow> Some (segmented_phonemes loc, segmented_words loc)) = Some ([], []) \<and>
   TIMIT_init ''train'' 20 10 1 (17 :: nat, 2 :: nat, 946 :: nat) files_scenario =
     Inl (NameError ''VectorSpace'')"
  by code_simp

subsection \<open>The constructor\<close>

lemma make_data_specs_fails: "make_data_specs self = Inl (NameError ''VectorSpace'')"
  by (simp add: make_data_specs_def lookup_global_def module_globals_def)

lemma TIMIT_init_cases:
  "TIMIT_init which_set fl ov fpe rng files =
     (case TIMIT_transform which_set fl ov fpe rng files of
        Inl e \<Rightarrow> Inl e | Inr st \<Rightarrow> Inl (NameError ''VectorSpace''))"
  by (cases "TIMIT_transform which_set fl ov fpe rng files")
     (auto simp: TIMIT_init_def make_data_specs_fails)

text \<open>Claim C8.  A \<open>which_set\<close> other than \<open>train\<close>, \<open>valid\<close> and \<open>test\<close> makes the
  constructor raise \<open>ValueError\<close> with a message that starts with the given value; for
  these three values the check passes.\<close>

theorem which_set_validation:
  "(which_set \<notin> set [''train'', ''valid'', ''test''] \<longrightarrow>
      TIMIT_init which_set fl ov fpe rng files =
        Inl (ValueError (which_set @ '' is not a recognized value. '' @
                         ''Valid values are ['train', 'valid', 'test'].''))) \<and>
   (which_set \<in> set [''train'', ''valid'', ''test''] \<longrightarrow> check_which_set which_set = Inr ())"
  by (simp add: TIMIT_init_def TIMIT_transform_def check_which_set_def)

theorem which_set_validation_witness:
  "TIMIT_init ''dev'' 20 10 1 (17 :: nat, 2 :: nat, 946 :: nat) files_scenario =
     Inl (ValueError ''dev is not a recognized value. Valid values are ['train', 'valid', 'test'].'') \<and>
   check_which_set ''train'' = Inr () \<and> check_which_set ''valid'' = Inr () \<and>
   check_which_set ''test'' = Inr ()"
  using which_set_validation[of "''dev''" 20 10 1 "(17 :: nat, 2 :: nat, 946 :: nat)" files_scenario]
    which_set_validation[of "''train''"] which_set_validation[of "''valid''"]
    which_set_validation[of "''test''"]
  by simp

text \<open>Claim C9.  Two constructions that differ only in \<open>rng\<close> give the same result:
  the same error, or the same object (segmented sequences, references) and the same
  local accumulators.\<close>

theorem rng_not_consumed:
  "TIMIT_transform which_set fl ov fpe rng1 files = TIMIT_transform which_set fl ov fpe rng2 files \<and>
   TIMIT_init which_set fl ov fpe rng1 files = TIMIT_init which_set fl ov fpe rng2 files"
  by (simp add: TIMIT_init_def TIMIT_transform_def)

text \<open>Claim C10.  \<open>VectorSpace\<close> and \<open>CompositeSpace\<close> are not names of the module.  No
  construction returns an object, and every construction that passes the loop fails
  with \<open>NameError\<close> at the first line of the data-specs stage.\<close>

theorem data_specs_never_assigned:
  "''VectorSpace'' \<notin> set module_globals \<and> ''CompositeSpace'' \<notin> set module_globals \<and>
   (\<forall>obj. TIMIT_init which_set fl ov fpe rng files \<noteq> Inr obj) \<and>
   (\<forall>self loc. TIMIT_transform which_set fl ov fpe rng files = Inr (self, loc) \<longrightarrow>
      TIMIT_init which_set fl ov fpe rng files = Inl (NameError ''VectorSpace''))"
proof (intro conjI allI impI)
  show "''VectorSpace'' \<notin> set module_globals" by (simp add: module_globals_def)
  show "''CompositeSpace'' \<notin> set module_globals" by (simp add: module_globals_def)
next
  fix obj
  show "TIMIT_init which_set fl ov fpe rng files \<noteq> Inr obj"
    by (simp add: TIMIT_init_cases split: sum.splits)
next
  fix self loc
  assume "TIMIT_transform which_set fl ov fpe rng files = Inr (self, loc)"
  then show "TIMIT_init which_set fl ov fpe rng files = Inl (NameError ''VectorSpace'')"
    by (simp add: TIMIT_init_cases)
qed

theorem data_specs_never_assigned_witness:
  "TIMIT_init ''train'' 2 1 1 (17 :: nat, 2 :: nat, 946 :: nat) files_mixed =
     Inl (NameError ''VectorSpace'')"
proof -
  have ws: "''train'' \<in> set [''train'', ''valid'', ''test'']" by simp
  from TIMIT_transform_run[OF ws files_mixed_all_ok, of "(17 :: nat, 2 :: nat, 946 :: nat)"]
  obtain self loc where
    "TIMIT_transform ''train'' 2 1 1 (17 :: nat, 2 :: nat, 946 :: nat) files_mixed = Inr (self, loc)"
    by blast
  with data_specs_never_assigned[of "''train''" 2 1 1 "(17 :: nat, 2 :: nat, 946 :: nat)" files_mixed]
  show ?thesis by blast
qed

text \<open>With \<open>frame_length = 0\<close> and no sequence, no configuration error is raised: the
  constructor runs on to the data-specs stage.  With one empty sequence, boundary
  extraction of that sequence raises before any segmentation is attempted.\<close>

theorem configuration_error_counterexample:
  "TIMIT_init ''train'' 0 0 1 (17 :: nat, 2 :: nat, 946 :: nat) files_none =
     Inl (NameError ''VectorSpace'') \<and>
   TIMIT_init ''train'' 0 0 1 (17 :: nat, 2 :: nat, 946 :: nat) files_empty_first = Inl IndexError"
  by code_simp

text \<open>Claim C4, amended.  The constructor does not check \<open>frame_length\<close> and
  \<open>overlap\<close> itself.  With a valid \<open>which_set\<close> and \<open>frame_length \<le> 0\<close>,
  \<open>overlap \<ge> frame_length\<close> or \<open>overlap < 0\<close>: without sequences no configuration error
  is raised; otherwise the per-sample stage of the first sequence runs first, its error
  is raised if it fails, and if it succeeds the first segmentation call raises the
  configuration error.\<close>

theorem configuration_error_from_segmentation:
  assumes ws: "which_set \<in> set [''train'', ''valid'', ''test'']"
    and bad: "fl \<le> 0 \<or> ov \<ge> fl \<or> ov < 0"
  shows "(x_raw files = [] \<longrightarrow>
            TIMIT_init which_set fl ov fpe rng files = Inl (NameError ''VectorSpace'')) \<and>
         (\<forall>sequence rest. x_raw files = sequence # rest \<longrightarrow>
            TIMIT_init which_set fl ov fpe rng files =
              (case annotate_sequence (load_data fl ov fpe files) 0 sequence of
                 Inl e \<Rightarrow> Inl e
               | Inr an \<Rightarrow> Inl ConfigurationError))"
proof (intro conjI allI impI)
  assume "x_raw files = []"
  then show "TIMIT_init which_set fl ov fpe rng files = Inl (NameError ''VectorSpace'')"
    using check_which_set_valid[OF ws]
    by (simp add: TIMIT_init_cases TIMIT_transform_def)
next
  fix sequence rest
  assume x: "x_raw files = sequence # rest"
  let ?init = "load_data fl ov fpe files"
  have seg: "segment_sequence ?init sequence an = Inl ConfigurationError" for an
    using bad by (intro segment_sequence_invalid) simp
  have "process_sequence ?init 0 sequence =
      (case annotate_sequence ?init 0 sequence of Inl e \<Rightarrow> Inl e | Inr an \<Rightarrow> Inl ConfigurationError)"
    by (cases "annotate_sequence ?init 0 sequence") (simp_all add: process_sequence_def seg)
  then have "transform_loop ?init init_locals 0 (x_raw files) =
      (case annotate_sequence ?init 0 sequence of Inl e \<Rightarrow> Inl e | Inr an \<Rightarrow> Inl ConfigurationError)"
    by (cases "annotate_sequence ?init 0 sequence") (simp_all add: x)
  then show "TIMIT_init which_set fl ov fpe rng files =
      (case annotate_sequence ?init 0 sequence of Inl e \<Rightarrow> Inl e | Inr an \<Rightarrow> Inl ConfigurationError)"
    using check_which_set_valid[OF ws]
    by (cases "annotate_sequence ?init 0 sequence")
       (simp_all add: TIMIT_init_cases TIMIT_transform_def)
qed

theorem configuration_error_from_segmentation_witness:
  "TIMIT_init ''train'' 0 0 1 (17 :: nat, 2 :: nat, 946 :: nat) files_none =
     Inl (NameError ''VectorSpace'') \<and>
   TIMIT_init ''train'' 2 2 1 (17 :: nat, 2 :: nat, 946 :: nat) files_mixed =
     Inl ConfigurationError \<and>
   TIMIT_init ''train'' 2 (- 1) 1 (17 :: nat, 2 :: nat, 946 :: nat) files_empty_first =
     Inl IndexError"
proof -
  have ws: "''train'' \<in> set [''train'', ''valid'', ''test'']" by simp
  have b1: "(0 :: int) \<le> 0 \<or> (0 :: int) \<ge> 0 \<or> (0 :: int) < 0" by simp
  have b2: "(2 :: int) \<le> 0 \<or> (2 :: int) \<ge> 2 \<or> (2 :: int) < 0" by simp
  have b3: "(2 :: int) \<le> 0 \<or> (- 1 :: int) \<ge> 2 \<or> (- 1 :: int) < 0" by simp
  have x1: "x_raw files_none = []" by (simp add: files_none_def)
  have x2: "x_raw files_mixed = [1, 2, 3, 4] # [[7], [1, 2, 3]]" by (simp add: files_mixed_def)
  have x3: "x_raw files_empty_first = [] # []" by (simp add: files_empty_first_def)
  have a3: "annotate_sequence (load_data 2 (- 1) 1 files_empty_first) 0 [] = Inl IndexError"
    by code_simp
  from configuration_error_from_segmentation[OF ws b1, of files_none 1 "(17 :: nat, 2 :: nat, 946 :: nat)"] x1
  have "TIMIT_init ''train'' 0 0 1 (17 :: nat, 2 :: nat, 946 :: nat) files_none =
     Inl (NameError ''VectorSpace'')" by blast
  moreover
  from configuration_error_from_segmentation[OF ws b2, of files_mixed 1 "(17 :: nat, 2 :: nat, 946 :: nat)"] x2
  have "TIMIT_init ''train'' 2 2 1 (17 :: nat, 2 :: nat, 946 :: nat) files_mixed =
     Inl ConfigurationError" by (simp add: files_mixed_annotate)
  moreover
  from configuration_error_from_segmentation[OF ws b3, of files_empty_first 1 "(17 :: nat, 2 :: nat, 946 :: nat)"] x3
  have "TIMIT_init ''train'' 2 (- 1) 1 (17 :: nat, 2 :: nat, 946 :: nat) files_empty_first =
     Inl IndexError" by (simp add: a3)
  ultimately show ?thesis by blast
qed

end
